theory Spec2Isabelle
  imports Main
begin

section \<open>Errors\<close>

text \<open>
  Errors handed back by the remote parameter service. The client only ever asks one
  question of such an error: does its chain contain a \<^verbatim>\<open>*types.ParameterNotFound\<close>
  (\<^verbatim>\<open>errors.As\<close>)? An error is therefore either that typed error, some other
  error, or an error wrapping another one.
\<close>

datatype remote_error =
    ParameterNotFound string
  | OtherError string
  | Wrapping string remote_error

fun errors_As_ParameterNotFound :: "remote_error \<Rightarrow> bool" where
  "errors_As_ParameterNotFound (ParameterNotFound m) = True"
| "errors_As_ParameterNotFound (OtherError m) = False"
| "errors_As_ParameterNotFound (Wrapping m e) = errors_As_ParameterNotFound e"

text \<open>
  The categories of errors. The client constructs failures of the \<^verbatim>\<open>failure\<close>
  package in two categories only, \<open>systemErr\<close> and \<open>notFoundErr\<close>;
  \<open>invalidInputErr\<close> and \<open>conflictErr\<close> stand for the two further classes of the
  error taxonomy (InvalidInput, Conflict), which no function of the client constructs.
\<close>

datatype category = systemErr | notFoundErr | invalidInputErr | conflictErr

text \<open>
  A Go \<^verbatim>\<open>error\<close> as the client sees it: an error of the remote service as it came,
  a categorised failure with its message (\<^verbatim>\<open>failure.System(msg)\<close>), a remote error
  converted into a category (\<^verbatim>\<open>failure.ToSystem(err, msg)\<close>,
  \<^verbatim>\<open>failure.ToNotFound(err, msg)\<close>), or an error wrapped with a message
  (\<^verbatim>\<open>failure.Wrap(err, msg)\<close>), which keeps the category of what it wraps.
\<close>

datatype error =
    Remote remote_error
  | Fail category string
  | To category remote_error string
  | Wrap error string

fun category_of :: "error \<Rightarrow> category option" where
  "category_of (Remote e) = None"
| "category_of (Fail c m) = Some c"
| "category_of (To c e m) = Some c"
| "category_of (Wrap e m) = category_of e"

definition System :: "string \<Rightarrow> error" where
  "System msg = Fail systemErr msg"

definition ToSystem :: "remote_error \<Rightarrow> string \<Rightarrow> error" where
  "ToSystem e msg = To systemErr e msg"

definition ToNotFound :: "remote_error \<Rightarrow> string \<Rightarrow> error" where
  "ToNotFound e msg = To notFoundErr e msg"

text \<open>The category tests take a possibly nil error; nil belongs to no category.\<close>

definition is_category :: "category \<Rightarrow> error option \<Rightarrow> bool" where
  "is_category c err = (case err of None \<Rightarrow> False | Some e \<Rightarrow> category_of e = Some c)"

definition IsNotFound :: "error option \<Rightarrow> bool" where
  "IsNotFound err = is_category notFoundErr err"

definition IsSystem :: "error option \<Rightarrow> bool" where
  "IsSystem err = is_category systemErr err"

definition IsInvalidInput :: "error option \<Rightarrow> bool" where
  "IsInvalidInput err = is_category invalidInputErr err"

definition IsConflict :: "error option \<Rightarrow> bool" where
  "IsConflict err = is_category conflictErr err"

definition handleAPIError :: "remote_error option \<Rightarrow> string \<Rightarrow> error option" where
  "handleAPIError err msg =
     (case err of
        None \<Rightarrow> None
      | Some e \<Rightarrow>
          (let result = ToSystem e msg;
               result = (if errors_As_ParameterNotFound e then ToNotFound e msg else result)
           in Some result))"

section \<open>The remote service\<close>

text \<open>
  Requests and responses of the five operations of \<^verbatim>\<open>AdapterAPI\<close>, with the fields
  the client sets or reads. Pointers that may be nil are options.
\<close>

record Parameter =
  Name :: "string option"
  Value :: "string option"

record GetParameterOutput =
  Parameter :: "Parameter option"

record GetParametersOutput =
  Parameters :: "Parameter list"
  InvalidParameters :: "string list"

record GetParametersByPathOutput =
  Parameters :: "Parameter list"
  NextToken :: "string option"

record GetParameterInput =
  Name :: string
  WithDecryption :: bool

record GetParametersInput =
  Names :: "string list"
  WithDecryption :: bool

record GetParametersByPathInput =
  Path :: string
  WithDecryption :: bool
  Recursive :: bool
  NextToken :: "string option"

record DeleteParameterInput =
  Name :: string

datatype ParameterType = ParameterTypeString | ParameterTypeStringList | ParameterTypeSecureString

datatype ParameterTier = ParameterTierStandard | ParameterTierAdvanced | ParameterTierIntelligentTiering

record PutParameterInput =
  Name :: string
  Type :: ParameterType
  Value :: string
  Overwrite :: bool
  Tier :: ParameterTier

text \<open>
  \<^verbatim>\<open>AdapterAPI\<close> is an interface: the client works with any implementation. An
  implementation is five functions on a state \<open>'s\<close> of its own (the remote store and
  whatever else it keeps); each takes the request and the state and returns the
  response, an error or an output, with the new state. The outputs of the three
  reading operations are pointers the client dereferences, so they may be nil; the
  outputs of the two writing operations are discarded by the client.
\<close>

record 's AdapterAPI =
  GetParameter :: "GetParameterInput \<Rightarrow> 's \<Rightarrow> (remote_error + GetParameterOutput option) \<times> 's"
  GetParameters :: "GetParametersInput \<Rightarrow> 's \<Rightarrow> (remote_error + GetParametersOutput option) \<times> 's"
  GetParametersByPath ::
    "GetParametersByPathInput \<Rightarrow> 's \<Rightarrow> (remote_error + GetParametersByPathOutput option) \<times> 's"
  DeleteParameter :: "DeleteParameterInput \<Rightarrow> 's \<Rightarrow> (remote_error + unit) \<times> 's"
  PutParameter :: "PutParameterInput \<Rightarrow> 's \<Rightarrow> (remote_error + unit) \<times> 's"

section \<open>The client\<close>

record 's Client =
  api :: "'s AdapterAPI"
  isEncrypted :: bool

definition NewClient :: "'s AdapterAPI option \<Rightarrow> bool \<Rightarrow> 's Client option \<times> error option" where
  "NewClient a enc =
     (case a of
        None \<Rightarrow> (None, Some (System ''api is nil, an initialized ssmiface.SSMAPI is required''))
      | Some a' \<Rightarrow> (Some \<lparr>api = a', isEncrypted = enc\<rparr>, None))"

definition IsEncrypted :: "'s Client \<Rightarrow> bool" where
  "IsEncrypted c = isEncrypted c"

text \<open>
  Every method returns the Go pair of a value and a possibly nil error, and the state
  in which it leaves the remote service.
\<close>

definition Param :: "'s Client \<Rightarrow> string \<Rightarrow> 's \<Rightarrow> (string \<times> error option) \<times> 's" where
  "Param c key s =
     (let result = '''' in
      if key = '''' then ((result, Some (System ''key is empty, a non empty key is required'')), s)
      else
        let inp = \<lparr>GetParameterInput.Name = key, GetParameterInput.WithDecryption = IsEncrypted c\<rparr>;
            (r, s') = GetParameter (api c) inp s
        in case r of
             Inl err \<Rightarrow>
               ((result, handleAPIError (Some err) (''c.api.GetParameter failed ('' @ key @ '')'')), s')
           | Inr out \<Rightarrow>
               (case out of
                  None \<Rightarrow> ((result, None), s')
                | Some out' \<Rightarrow>
                    (case Parameter out' of
                       None \<Rightarrow> ((result, None), s')
                     | Some p \<Rightarrow>
                         (case Parameter.Value p of
                            None \<Rightarrow> ((result, None), s')
                          | Some v \<Rightarrow> ((v, None), s')))))"

text \<open>
  The paginator of the service's client library
  (\<^verbatim>\<open>ssm.NewGetParametersByPathPaginator\<close>), which \<open>Path\<close> drives. It starts on the
  first page with the token of the request (none here); \<open>NextPage\<close> asks the service
  for the page at its token and moves to the token of the answer. When the service
  answers with an error, \<open>NextPage\<close> returns a nil output with that error
  (\<^verbatim>\<open>return nil, err\<close>) and the paginator stays where it was. A nil output without
  an error is dereferenced by the paginator itself.
\<close>

record GetParametersByPathPaginator =
  params :: GetParametersByPathInput
  nextToken :: "string option"
  firstPage :: bool

datatype 'a outcome = Panic | Return 'a

definition NewGetParametersByPathPaginator :: "GetParametersByPathInput \<Rightarrow> GetParametersByPathPaginator" where
  "NewGetParametersByPathPaginator inp =
     \<lparr>params = inp, nextToken = GetParametersByPathInput.NextToken inp, firstPage = True\<rparr>"

definition HasMorePages :: "GetParametersByPathPaginator \<Rightarrow> bool" where
  "HasMorePages p =
     (firstPage p \<or> (case nextToken p of None \<Rightarrow> False | Some t \<Rightarrow> length t \<noteq> 0))"

definition NextPage ::
  "'s AdapterAPI \<Rightarrow> GetParametersByPathPaginator \<Rightarrow> 's \<Rightarrow>
   (GetParametersByPathOutput option \<times> remote_error option) outcome \<times> GetParametersByPathPaginator \<times> 's" where
  "NextPage a p s =
     (if \<not> HasMorePages p then (Return (None, Some (OtherError ''no more pages available'')), p, s)
      else
        let inp = (params p)\<lparr>GetParametersByPathInput.NextToken := nextToken p\<rparr>;
            (r, s') = GetParametersByPath a inp s
        in case r of
             Inl err \<Rightarrow> (Return (None, Some err), p, s')
           | Inr None \<Rightarrow> (Panic, p\<lparr>firstPage := False\<rparr>, s')
           | Inr (Some result) \<Rightarrow>
               (Return (Some result, None),
                p\<lparr>firstPage := False, nextToken := GetParametersByPathOutput.NextToken result\<rparr>, s'))"

definition strings_HasPrefix :: "string \<Rightarrow> string \<Rightarrow> bool" where
  "strings_HasPrefix s pre = (length s \<ge> length pre \<and> take (length pre) s = pre)"

definition EnsurePathPrefix :: "string \<Rightarrow> string" where
  "EnsurePathPrefix path = (if \<not> strings_HasPrefix path ''/'' then ''/'' @ path else path)"

text \<open>
  The body shared by the two loops over \<^verbatim>\<open>out.Parameters\<close>: a parameter with a nil
  name or a nil value is skipped, any other one is stored under its name.
\<close>

definition store_parameter :: "(string \<rightharpoonup> string) \<Rightarrow> Parameter \<Rightarrow> (string \<rightharpoonup> string)" where
  "store_parameter result p =
     (case Parameter.Name p of
        None \<Rightarrow> result
      | Some n \<Rightarrow> (case Parameter.Value p of None \<Rightarrow> result | Some v \<Rightarrow> result(n \<mapsto> v)))"

text \<open>
  The loop of \<open>Path\<close> over the pages. It ends when the paginator has no more pages,
  which is up to the service: against a service that always answers with a further
  token it runs forever, and the value is \<open>None\<close>. The error of a page is appended
  to \<open>errs\<close>; the parameters are then read through the output pointer, which panics
  when that pointer is nil.
\<close>

partial_function (option) Path_pages ::
  "'s AdapterAPI \<Rightarrow> GetParametersByPathPaginator \<Rightarrow> (string \<rightharpoonup> string) \<Rightarrow> error list \<Rightarrow> 's \<Rightarrow>
   (((string \<rightharpoonup> string) \<times> error list) outcome \<times> 's) option" where
  "Path_pages a pager result errs s =
     (if HasMorePages pager then
        (case NextPage a pager s of
           (Panic, pager', s') \<Rightarrow> Some (Panic, s')
         | (Return (out, err), pager', s') \<Rightarrow>
             (let errs' = (case err of None \<Rightarrow> errs
                           | Some e \<Rightarrow> errs @ [Wrap (Remote e) ''pager.NextPage failed''])
              in case out of
                   None \<Rightarrow> Some (Panic, s')
                 | Some out' \<Rightarrow>
                     Path_pages a pager'
                       (foldl store_parameter result (GetParametersByPathOutput.Parameters out')) errs' s'))
      else Some (Return (result, errs), s))"

definition Path ::
  "'s Client \<Rightarrow> string \<Rightarrow> bool list \<Rightarrow> 's \<Rightarrow> (((string \<rightharpoonup> string) \<times> error option) outcome \<times> 's) option" where
  "Path c path recursive s =
     (let result = Map.empty; isRecursive = True in
      if path = '''' then Some (Return (result, Some (System ''path is empty'')), s)
      else
        let path = EnsurePathPrefix path;
            isRecursive = (if length recursive > 0 \<and> recursive ! 0 = False then False else isRecursive);
            inp = \<lparr>Path = path, GetParametersByPathInput.WithDecryption = IsEncrypted c,
                   Recursive = isRecursive, GetParametersByPathInput.NextToken = None\<rparr>;
            pager = NewGetParametersByPathPaginator inp
        in case Path_pages (api c) pager result [] s of
             None \<Rightarrow> None
           | Some (Panic, s') \<Rightarrow> Some (Panic, s')
           | Some (Return (result', errs), s') \<Rightarrow> Some (Return (result', None), s'))"

text \<open>\<^verbatim>\<open>%v\<close> of a slice of strings: the elements separated by spaces, in brackets.\<close>

fun join_spaces :: "string list \<Rightarrow> string" where
  "join_spaces [] = ''''"
| "join_spaces [k] = k"
| "join_spaces (k # ks) = k @ '' '' @ join_spaces ks"

definition Collect_keys ::
  "'s Client \<Rightarrow> string list \<Rightarrow> 's \<Rightarrow>
   ((string \<rightharpoonup> string) option \<times> string list \<times> error option) outcome \<times> 's" where
  "Collect_keys c keys s =
     (if length keys = 0 then (Return (None, [], Some (System ''keys must have at least one key'')), s)
      else
        let names = foldl (\<lambda>names k. names @ [k]) [] keys;
            inp = \<lparr>Names = names, GetParametersInput.WithDecryption = IsEncrypted c\<rparr>;
            (r, s') = GetParameters (api c) inp s
        in case r of
             Inl err \<Rightarrow>
               (Return (None, [],
                  Some (ToSystem err (''c.api.GetParametersWithContext failed (['' @ join_spaces keys @ ''])''))), s')
           | Inr None \<Rightarrow> (Panic, s')
           | Inr (Some out) \<Rightarrow>
               (Return (Some (foldl store_parameter Map.empty (GetParametersOutput.Parameters out)),
                        filter (\<lambda>i. i \<noteq> '''') (InvalidParameters out), None), s'))"

definition Delete :: "'s Client \<Rightarrow> string \<Rightarrow> 's \<Rightarrow> (string \<times> error option) \<times> 's" where
  "Delete c key s =
     (let ((result, err), s1) = Param c key s in
      case err of
        Some e \<Rightarrow> ((result, Some (Wrap e (''c.Param failed ('' @ key @ '')''))), s1)
      | None \<Rightarrow>
          (let inp = \<lparr>DeleteParameterInput.Name = key\<rparr>;
               (r, s2) = DeleteParameter (api c) inp s1
           in case r of
                Inl e \<Rightarrow> ((result, Some (ToSystem e (''c.api.DeleteParameter failed ('' @ key @ '')''))), s2)
              | Inr u \<Rightarrow> ((result, None), s2)))"

definition Put :: "'s Client \<Rightarrow> string \<Rightarrow> string \<Rightarrow> bool list \<Rightarrow> 's \<Rightarrow> (string \<times> error option) \<times> 's" where
  "Put c key val overwrite s =
     (let ((old, err), s1) = Param c key s in
      if err \<noteq> None \<and> \<not> IsNotFound err then
        ((old, case err of None \<Rightarrow> None | Some e \<Rightarrow> Some (Wrap e ''c.Param failed'')), s1)
      else if \<not> IsNotFound err \<and> old = val then ((old, None), s1)
      else
        let isOverwrite = (if length overwrite > 0 \<and> overwrite ! 0 = True then True else False) in
        if isOverwrite = False \<and> old \<noteq> '''' then
          ((old, Some (System (''param ('' @ key @ '') exists but overwrite is false''))), s1)
        else
          let inp = \<lparr>PutParameterInput.Name = key, Type = ParameterTypeString,
                     PutParameterInput.Value = val, Overwrite = isOverwrite,
                     Tier = ParameterTierStandard\<rparr>;
              (r, s2) = PutParameter (api c) inp s1
          in case r of
               Inl e \<Rightarrow>
                 ((old, Some (ToSystem e (''c.api.PutParameterWithContext failed ('' @ key @ '')''))), s2)
             | Inr u \<Rightarrow> ((old, None), s2))"

section \<open>Lambda triggers\<close>

datatype LambdaTrigger = LambdaTrigger string

fun String :: "LambdaTrigger \<Rightarrow> string" where
  "String (LambdaTrigger s) = s"

definition APIGWTrigger :: LambdaTrigger where "APIGWTrigger = LambdaTrigger ''apigw''"
definition DDBTrigger :: LambdaTrigger where "DDBTrigger = LambdaTrigger ''ddb''"
definition DirectTrigger :: LambdaTrigger where "DirectTrigger = LambdaTrigger ''direct''"
definition CognitoTrigger :: LambdaTrigger where "CognitoTrigger = LambdaTrigger ''cognito''"
definition S3Trigger :: LambdaTrigger where "S3Trigger = LambdaTrigger ''s3''"
definition SNSTrigger :: LambdaTrigger where "SNSTrigger = LambdaTrigger ''sns''"
definition SQSTrigger :: LambdaTrigger where "SQSTrigger = LambdaTrigger ''sqs''"

definition Empty :: "LambdaTrigger \<Rightarrow> bool" where
  "Empty lt = (String lt = '''')"

text \<open>
  \<^verbatim>\<open>strings.ToLower\<close> on a Go string, a sequence of bytes. When every byte is ASCII
  the letters \<open>A\<close> to \<open>Z\<close> are moved to \<open>a\<close> to \<open>z\<close> and every other byte is kept.
  Otherwise the string is decoded and mapped rune by rune through the Unicode tables
  of the standard library; that mapping is the parameter \<open>unicode_lower\<close>.
\<close>

definition is_ascii :: "char \<Rightarrow> bool" where
  "is_ascii c = ((of_char c :: nat) < 128)"

definition ascii_lower :: "char \<Rightarrow> char" where
  "ascii_lower c =
     (if (65::nat) \<le> of_char c \<and> (of_char c :: nat) \<le> 90 then char_of ((of_char c :: nat) + 32) else c)"

definition strings_ToLower :: "(string \<Rightarrow> string) \<Rightarrow> string \<Rightarrow> string" where
  "strings_ToLower unicode_lower s =
     (if list_all is_ascii s then map ascii_lower s else unicode_lower s)"

definition ToLambdaTrigger :: "(string \<Rightarrow> string) \<Rightarrow> string \<Rightarrow> LambdaTrigger \<times> string option" where
  "ToLambdaTrigger unicode_lower s =
     (let t = LambdaTrigger ''''; err = None; l = strings_ToLower unicode_lower s in
      if l = String APIGWTrigger then (APIGWTrigger, err)
      else if l = String DDBTrigger then (DDBTrigger, err)
      else if l = String DirectTrigger then (DirectTrigger, err)
      else if l = String CognitoTrigger then (CognitoTrigger, err)
      else if l = String S3Trigger then (S3Trigger, err)
      else if l = String SNSTrigger then (SNSTrigger, err)
      else if l = String SQSTrigger then (SQSTrigger, err)
      else (t, Some (''event trigger ('' @ String t @ '') is not registered'')))"

definition registered :: "string list" where
  "registered = map String
     [APIGWTrigger, DDBTrigger, DirectTrigger, CognitoTrigger, S3Trigger, SNSTrigger, SQSTrigger]"

section \<open>A scripted implementation of the interface\<close>

text \<open>
  An implementation of \<open>AdapterAPI\<close> in the manner of a test double: its answer to
  each operation is scripted as a function of the request, and its state is the list of
  the requests it has received, oldest first. It gives the theorems below their concrete
  instances, and it shows which requests a call of the client issues.
\<close>

datatype request =
    GetParameterRequest GetParameterInput
  | GetParametersRequest GetParametersInput
  | GetParametersByPathRequest GetParametersByPathInput
  | DeleteParameterRequest DeleteParameterInput
  | PutParameterRequest PutParameterInput

record script =
  onGetParameter :: "GetParameterInput \<Rightarrow> remote_error + GetParameterOutput option"
  onGetParameters :: "GetParametersInput \<Rightarrow> remote_error + GetParametersOutput option"
  onGetParametersByPath :: "GetParametersByPathInput \<Rightarrow> remote_error + GetParametersByPathOutput option"
  onDeleteParameter :: "DeleteParameterInput \<Rightarrow> remote_error + unit"
  onPutParameter :: "PutParameterInput \<Rightarrow> remote_error + unit"

definition scripted :: "script \<Rightarrow> request list AdapterAPI" where
  "scripted sc =
     \<lparr>GetParameter = (\<lambda>i log. (onGetParameter sc i, log @ [GetParameterRequest i])),
      GetParameters = (\<lambda>i log. (onGetParameters sc i, log @ [GetParametersRequest i])),
      GetParametersByPath = (\<lambda>i log. (onGetParametersByPath sc i, log @ [GetParametersByPathRequest i])),
      DeleteParameter = (\<lambda>i log. (onDeleteParameter sc i, log @ [DeleteParameterRequest i])),
      PutParameter = (\<lambda>i log. (onPutParameter sc i, log @ [PutParameterRequest i]))\<rparr>"

text \<open>
  Three scripts. In \<open>holding v\<close> every key holds the value \<open>v\<close>, every page of a path
  is the single parameter \<open>/cfg/a\<close> with that value and no further token, and every
  write is accepted. In \<open>failing e\<close> every operation answers with the error \<open>e\<close>.
  \<open>second_page_failing v e\<close> is \<open>holding v\<close> except that the first page of a path
  comes with a token for a second page, and the request for any further page is
  answered with the error \<open>e\<close>.
\<close>

definition holding :: "string \<Rightarrow> script" where
  "holding v =
     \<lparr>onGetParameter = (\<lambda>i. Inr (Some \<lparr>Parameter =
          Some \<lparr>Parameter.Name = Some (GetParameterInput.Name i), Parameter.Value = Some v\<rparr>\<rparr>)),
      onGetParameters = (\<lambda>i. Inr (Some \<lparr>GetParametersOutput.Parameters =
          map (\<lambda>k. \<lparr>Parameter.Name = Some k, Parameter.Value = Some v\<rparr>) (Names i),
          InvalidParameters = []\<rparr>)),
      onGetParametersByPath = (\<lambda>i. Inr (Some \<lparr>GetParametersByPathOutput.Parameters =
          [\<lparr>Parameter.Name = Some ''/cfg/a'', Parameter.Value = Some v\<rparr>],
          GetParametersByPathOutput.NextToken = None\<rparr>)),
      onDeleteParameter = (\<lambda>i. Inr ()),
      onPutParameter = (\<lambda>i. Inr ())\<rparr>"

definition failing :: "remote_error \<Rightarrow> script" where
  "failing e =
     \<lparr>onGetParameter = (\<lambda>i. Inl e),
      onGetParameters = (\<lambda>i. Inl e),
      onGetParametersByPath = (\<lambda>i. Inl e),
      onDeleteParameter = (\<lambda>i. Inl e),
      onPutParameter = (\<lambda>i. Inl e)\<rparr>"

definition second_page_failing :: "string \<Rightarrow> remote_error \<Rightarrow> script" where
  "second_page_failing v e =
     (holding v)\<lparr>onGetParametersByPath :=
        (\<lambda>i. case GetParametersByPathInput.NextToken i of
               None \<Rightarrow> Inr (Some \<lparr>GetParametersByPathOutput.Parameters =
                          [\<lparr>Parameter.Name = Some ''/cfg/a'', Parameter.Value = Some v\<rparr>],
                          GetParametersByPathOutput.NextToken = Some ''page-2''\<rparr>)
             | Some t \<Rightarrow> Inl e)\<rparr>"

section \<open>A key-value store behind the interface\<close>

text \<open>
  A second implementation of \<open>AdapterAPI\<close>: a store of keys and values, kept as a
  list of pairs. A read of a missing key is answered with \<^verbatim>\<open>ParameterNotFound\<close>, a
  deletion removes the key, and a write does what its request says: with the overwrite
  flag it stores the value, without the flag it stores the value of a key that is
  missing and refuses a key that exists. A path is answered in one page, with every
  key that begins with it.
\<close>

definition store_put :: "string \<Rightarrow> string \<Rightarrow> (string \<times> string) list \<Rightarrow> (string \<times> string) list" where
  "store_put k v m = (k, v) # filter (\<lambda>kv. fst kv \<noteq> k) m"

definition key_value_store :: "(string \<times> string) list AdapterAPI" where
  "key_value_store =
     \<lparr>GetParameter = (\<lambda>i m.
        (case map_of m (GetParameterInput.Name i) of
           None \<Rightarrow> Inl (ParameterNotFound ''ParameterNotFound'')
         | Some v \<Rightarrow> Inr (Some \<lparr>Parameter =
             Some \<lparr>Parameter.Name = Some (GetParameterInput.Name i), Parameter.Value = Some v\<rparr>\<rparr>), m)),
      GetParameters = (\<lambda>i m.
        (Inr (Some \<lparr>GetParametersOutput.Parameters =
            map (\<lambda>k. \<lparr>Parameter.Name = Some k, Parameter.Value = map_of m k\<rparr>)
              (filter (\<lambda>k. map_of m k \<noteq> None) (Names i)),
            InvalidParameters = filter (\<lambda>k. map_of m k = None) (Names i)\<rparr>), m)),
      GetParametersByPath = (\<lambda>i m.
        (Inr (Some \<lparr>GetParametersByPathOutput.Parameters =
            map (\<lambda>kv. \<lparr>Parameter.Name = Some (fst kv), Parameter.Value = Some (snd kv)\<rparr>)
              (filter (\<lambda>kv. strings_HasPrefix (fst kv) (GetParametersByPathInput.Path i)) m),
            GetParametersByPathOutput.NextToken = None\<rparr>), m)),
      DeleteParameter = (\<lambda>i m.
        (case map_of m (DeleteParameterInput.Name i) of
           None \<Rightarrow> (Inl (ParameterNotFound ''ParameterNotFound''), m)
         | Some v \<Rightarrow> (Inr (), filter (\<lambda>kv. fst kv \<noteq> DeleteParameterInput.Name i) m))),
      PutParameter = (\<lambda>i m.
        (if map_of m (PutParameterInput.Name i) \<noteq> None \<and> \<not> Overwrite i
         then (Inl (OtherError ''ParameterAlreadyExists''), m)
         else (Inr (), store_put (PutParameterInput.Name i) (PutParameterInput.Value i) m)))\<rparr>"

section \<open>Reading a single key\<close>

lemma Param_read_failed:
  assumes "key \<noteq> ''''"
    and "GetParameter (api c) \<lparr>GetParameterInput.Name = key, GetParameterInput.WithDecryption = IsEncrypted c\<rparr> s = (Inl e, s')"
  shows "Param c key s = (('''', handleAPIError (Some e) (''c.api.GetParameter failed ('' @ key @ '')'')), s')"
  using assms by (simp add: Param_def)

lemma Param_read_value:
  assumes "key \<noteq> ''''"
    and "GetParameter (api c) \<lparr>GetParameterInput.Name = key, GetParameterInput.WithDecryption = IsEncrypted c\<rparr> s
           = (Inr (Some \<lparr>Parameter = Some p\<rparr>), s')"
    and "Parameter.Value p = Some v"
  shows "Param c key s = ((v, None), s')"
  using assms by (simp add: Param_def)

lemma IsNotFound_handleAPIError:
  "IsNotFound (handleAPIError (Some e) msg) = errors_As_ParameterNotFound e"
  by (simp add: handleAPIError_def IsNotFound_def is_category_def ToSystem_def ToNotFound_def)

lemma IsSystem_handleAPIError:
  "IsSystem (handleAPIError (Some e) msg) = (\<not> errors_As_ParameterNotFound e)"
  by (simp add: handleAPIError_def IsSystem_def is_category_def ToSystem_def ToNotFound_def)

text \<open>
  Claim C6. When the remote service answers a single-key read with an error, \<open>Param\<close>
  returns an error that is a NotFound error exactly when the chain of the remote error
  holds a \<^verbatim>\<open>ParameterNotFound\<close>, and a System error in every other case; the value
  returned with it is the empty string. In particular a read of a key the service
  reports as not found fails with NotFound.
\<close>

theorem Param_error_classification:
  assumes "key \<noteq> ''''"
    and "GetParameter (api c) \<lparr>GetParameterInput.Name = key, GetParameterInput.WithDecryption = IsEncrypted c\<rparr> s = (Inl e, s')"
  shows "snd (fst (Param c key s)) \<noteq> None
       \<and> IsNotFound (snd (fst (Param c key s))) = errors_As_ParameterNotFound e
       \<and> IsSystem (snd (fst (Param c key s))) = (\<not> errors_As_ParameterNotFound e)
       \<and> fst (fst (Param c key s)) = '''' \<and> snd (Param c key s) = s'"
  using assms
  by (simp add: Param_read_failed IsNotFound_handleAPIError IsSystem_handleAPIError)
     (simp add: handleAPIError_def)

text \<open>
  Claim C6 at a service that reports the parameter as not found, and at one whose
  connection breaks.
\<close>

theorem Param_error_classification_witness:
  "IsNotFound (snd (fst (Param \<lparr>api = scripted (failing (ParameterNotFound ''ParameterNotFound: /db/host'')), isEncrypted = False\<rparr> ''/db/host'' [])))
   \<and> IsSystem (snd (fst (Param \<lparr>api = scripted (failing (OtherError ''connection reset'')), isEncrypted = False\<rparr> ''/db/host'' [])))"
  using Param_error_classification [of "''/db/host''"
          "\<lparr>api = scripted (failing (ParameterNotFound ''ParameterNotFound: /db/host'')), isEncrypted = False\<rparr>" "[]"
          "ParameterNotFound ''ParameterNotFound: /db/host''"]
        Param_error_classification [of "''/db/host''"
          "\<lparr>api = scripted (failing (OtherError ''connection reset'')), isEncrypted = False\<rparr>" "[]"
          "OtherError ''connection reset''"]
  by (simp add: scripted_def failing_def)


section \<open>Writing a key\<close>

lemma Put_found:
  assumes "Param c key s = ((old, None), s1)"
  shows "Put c key val overwrite s =
     (if old = val then ((old, None), s1)
      else if \<not> (length overwrite > 0 \<and> overwrite ! 0 = True) \<and> old \<noteq> ''''
        then ((old, Some (System (''param ('' @ key @ '') exists but overwrite is false''))), s1)
      else (case PutParameter (api c)
                   \<lparr>PutParameterInput.Name = key, Type = ParameterTypeString,
                    PutParameterInput.Value = val,
                    Overwrite = (length overwrite > 0 \<and> overwrite ! 0 = True),
                    Tier = ParameterTierStandard\<rparr> s1 of
              (Inl e, s2) \<Rightarrow>
                ((old, Some (ToSystem e (''c.api.PutParameterWithContext failed ('' @ key @ '')''))), s2)
            | (Inr u, s2) \<Rightarrow> ((old, None), s2)))"
  using assms
  by (simp add: Put_def IsNotFound_def is_category_def split: prod.splits sum.splits)

lemma Put_not_found:
  assumes "Param c key s = (('''', err), s1)" and "IsNotFound err"
  shows "Put c key val overwrite s =
     (case PutParameter (api c)
             \<lparr>PutParameterInput.Name = key, Type = ParameterTypeString,
              PutParameterInput.Value = val,
              Overwrite = (length overwrite > 0 \<and> overwrite ! 0 = True),
              Tier = ParameterTierStandard\<rparr> s1 of
        (Inl e, s2) \<Rightarrow>
          (('''', Some (ToSystem e (''c.api.PutParameterWithContext failed ('' @ key @ '')''))), s2)
      | (Inr u, s2) \<Rightarrow> (('''', None), s2))"
  using assms
  by (simp add: Put_def split: prod.splits sum.splits)

lemma IsSystem_System: "IsSystem (Some (System msg))"
  by (simp add: IsSystem_def is_category_def System_def)

text \<open>
  Claim C1 as it is written fails twice. A key holding \<open>blue\<close> that is put to
  \<open>green\<close> with \<open>overwrite\<close> false fails, but with a System error and not with a
  Conflict error. A key holding the empty string that is put to \<open>green\<close> with
  \<open>overwrite\<close> false does not fail: the write is issued.
\<close>

theorem Put_conflict_counterexample:
  "\<not> IsConflict (snd (fst (Put \<lparr>api = scripted (holding ''blue''), isEncrypted = False\<rparr>
                                ''/app/color'' ''green'' [False] [])))
   \<and> IsSystem (snd (fst (Put \<lparr>api = scripted (holding ''blue''), isEncrypted = False\<rparr>
                                ''/app/color'' ''green'' [False] [])))
   \<and> Put \<lparr>api = scripted (holding ''''), isEncrypted = False\<rparr> ''/app/color'' ''green'' [False] []
       = (('''', None),
          [GetParameterRequest \<lparr>GetParameterInput.Name = ''/app/color'', GetParameterInput.WithDecryption = False\<rparr>,
           PutParameterRequest \<lparr>PutParameterInput.Name = ''/app/color'', Type = ParameterTypeString,
              PutParameterInput.Value = ''green'', Overwrite = False, Tier = ParameterTierStandard\<rparr>])"
  by (simp add: Put_def Param_def scripted_def holding_def IsEncrypted_def IsConflict_def IsSystem_def
        IsNotFound_def is_category_def System_def)


text \<open>
  Claim C1, as amended. When the key holds a non-empty value \<open>v1\<close> different from the
  new value \<open>v2\<close> and \<open>overwrite\<close> is false or omitted, \<open>Put\<close> fails with a System
  error, returns \<open>v1\<close> with it, and leaves the service in the state reached by the read:
  no write is issued.
\<close>

theorem Put_existing_without_overwrite:
  assumes "key \<noteq> ''''"
    and "GetParameter (api c) \<lparr>GetParameterInput.Name = key, GetParameterInput.WithDecryption = IsEncrypted c\<rparr> s
           = (Inr (Some \<lparr>Parameter = Some p\<rparr>), s1)"
    and "Parameter.Value p = Some v1"
    and "v1 \<noteq> ''''" and "v1 \<noteq> v2"
    and "overwrite = [] \<or> overwrite ! 0 = False"
  shows "Put c key v2 overwrite s =
           ((v1, Some (System (''param ('' @ key @ '') exists but overwrite is false''))), s1)
       \<and> IsSystem (snd (fst (Put c key v2 overwrite s)))"
proof -
  have "Param c key s = ((v1, None), s1)"
    using assms(1,2,3) by (rule Param_read_value)
  then have "Put c key v2 overwrite s =
           ((v1, Some (System (''param ('' @ key @ '') exists but overwrite is false''))), s1)"
    using assms(4,5,6) by (auto simp add: Put_found)
  then show ?thesis by (simp add: IsSystem_System)
qed

text \<open>
  Claim C1, as amended, at a key holding \<open>blue\<close>: the only request issued is the read.
\<close>

theorem Put_existing_without_overwrite_witness:
  "Put \<lparr>api = scripted (holding ''blue''), isEncrypted = False\<rparr> ''/app/color'' ''green'' [] []
     = ((''blue'', Some (System ''param (/app/color) exists but overwrite is false'')),
        [GetParameterRequest \<lparr>GetParameterInput.Name = ''/app/color'', GetParameterInput.WithDecryption = False\<rparr>])"
  using Put_existing_without_overwrite [of "''/app/color''"
          "\<lparr>api = scripted (holding ''blue''), isEncrypted = False\<rparr>" "[]"
          "\<lparr>Parameter.Name = Some ''/app/color'', Parameter.Value = Some ''blue''\<rparr>"
          "[GetParameterRequest \<lparr>GetParameterInput.Name = ''/app/color'', GetParameterInput.WithDecryption = False\<rparr>]"
          "''blue''" "''green''" "[]"]
  by (simp add: scripted_def holding_def IsEncrypted_def)

text \<open>
  Claim C4. When the key holds the value being put, \<open>Put\<close> returns that value with no
  error, whatever the \<open>overwrite\<close> argument, and leaves the service in the state reached
  by the read: no write is issued.
\<close>

theorem Put_same_value_noop:
  assumes "key \<noteq> ''''"
    and "GetParameter (api c) \<lparr>GetParameterInput.Name = key, GetParameterInput.WithDecryption = IsEncrypted c\<rparr> s
           = (Inr (Some \<lparr>Parameter = Some p\<rparr>), s1)"
    and "Parameter.Value p = Some v"
  shows "Put c key v overwrite s = ((v, None), s1)"
proof -
  have "Param c key s = ((v, None), s1)"
    using assms by (rule Param_read_value)
  then show ?thesis by (simp add: Put_found)
qed

text \<open>
  Claim C4 at a key holding \<open>blue\<close>, with \<open>overwrite\<close> true and with it omitted: the
  only request issued is the read.
\<close>

theorem Put_same_value_noop_witness:
  "Put \<lparr>api = scripted (holding ''blue''), isEncrypted = True\<rparr> ''/app/color'' ''blue'' [True] []
     = ((''blue'', None),
        [GetParameterRequest \<lparr>GetParameterInput.Name = ''/app/color'', GetParameterInput.WithDecryption = True\<rparr>])
   \<and> Put \<lparr>api = scripted (holding ''blue''), isEncrypted = True\<rparr> ''/app/color'' ''blue'' [] []
     = ((''blue'', None),
        [GetParameterRequest \<lparr>GetParameterInput.Name = ''/app/color'', GetParameterInput.WithDecryption = True\<rparr>])"
  using Put_same_value_noop [of "''/app/color''"
          "\<lparr>api = scripted (holding ''blue''), isEncrypted = True\<rparr>" "[]"
          "\<lparr>Parameter.Name = Some ''/app/color'', Parameter.Value = Some ''blue''\<rparr>"
          "[GetParameterRequest \<lparr>GetParameterInput.Name = ''/app/color'', GetParameterInput.WithDecryption = True\<rparr>]"
          "''blue''"]
  by (simp add: scripted_def holding_def IsEncrypted_def)

section \<open>Deleting a key\<close>

lemma Delete_found:
  assumes "Param c key s = ((old, None), s1)"
  shows "Delete c key s =
     (case DeleteParameter (api c) \<lparr>DeleteParameterInput.Name = key\<rparr> s1 of
        (Inl e, s2) \<Rightarrow> ((old, Some (ToSystem e (''c.api.DeleteParameter failed ('' @ key @ '')''))), s2)
      | (Inr u, s2) \<Rightarrow> ((old, None), s2))"
  using assms by (simp add: Delete_def split: prod.splits sum.splits)

lemma Delete_failed:
  assumes "Param c key s = ((old, Some e), s1)"
  shows "Delete c key s = ((old, Some (Wrap e (''c.Param failed ('' @ key @ '')''))), s1)"
  using assms by (simp add: Delete_def)

lemma IsNotFound_Wrap: "IsNotFound (Some (Wrap e msg)) = IsNotFound (Some e)"
  by (simp add: IsNotFound_def is_category_def)

text \<open>
  Claim C5. When the key holds a value and the service accepts the deletion,
  \<open>Delete\<close> returns the value read before the deletion, with no error, and leaves the
  service in the state reached by the accepted \<^verbatim>\<open>DeleteParameter\<close> request for that
  key. When the service reports the key as not found, \<open>Delete\<close> fails with a NotFound
  error and leaves the service in the state reached by the read: no deletion is issued.
\<close>

theorem Delete_returns_old_value:
  assumes "key \<noteq> ''''"
    and "GetParameter (api c) \<lparr>GetParameterInput.Name = key, GetParameterInput.WithDecryption = IsEncrypted c\<rparr> s
           = (r, s1)"
  shows "(\<forall>p v s2. r = Inr (Some \<lparr>Parameter = Some p\<rparr>) \<and> Parameter.Value p = Some v
             \<and> DeleteParameter (api c) \<lparr>DeleteParameterInput.Name = key\<rparr> s1 = (Inr (), s2)
           \<longrightarrow> Delete c key s = ((v, None), s2))
       \<and> (\<forall>e. r = Inl e \<and> errors_As_ParameterNotFound e
           \<longrightarrow> IsNotFound (snd (fst (Delete c key s))) \<and> fst (fst (Delete c key s)) = ''''
               \<and> snd (Delete c key s) = s1)"
proof (intro conjI allI impI)
  fix p v s2
  assume h: "r = Inr (Some \<lparr>Parameter = Some p\<rparr>) \<and> Parameter.Value p = Some v
             \<and> DeleteParameter (api c) \<lparr>DeleteParameterInput.Name = key\<rparr> s1 = (Inr (), s2)"
  have "Param c key s = ((v, None), s1)"
    using assms h by (simp add: Param_read_value)
  then show "Delete c key s = ((v, None), s2)"
    using h by (simp add: Delete_found)
next
  fix e
  assume h: "r = Inl e \<and> errors_As_ParameterNotFound e"
  have "Param c key s = (('''', Some (ToNotFound e (''c.api.GetParameter failed ('' @ key @ '')''))), s1)"
    using assms h by (simp add: Param_read_failed handleAPIError_def)
  then have d: "Delete c key s =
      (('''', Some (Wrap (ToNotFound e (''c.api.GetParameter failed ('' @ key @ '')''))
                        (''c.Param failed ('' @ key @ '')''))), s1)"
    by (rule Delete_failed)
  show "IsNotFound (snd (fst (Delete c key s)))"
    by (simp add: d IsNotFound_def is_category_def ToNotFound_def)
  show "fst (fst (Delete c key s)) = ''''" by (simp add: d)
  show "snd (Delete c key s) = s1" by (simp add: d)
qed

text \<open>
  Claim C5 at a key holding \<open>blue\<close>, where the read is followed by the deletion of that
  key, and at a key the service reports as not found, where the read is the only request.
\<close>

theorem Delete_returns_old_value_witness:
  "Delete \<lparr>api = scripted (holding ''blue''), isEncrypted = False\<rparr> ''/app/color'' []
     = ((''blue'', None),
        [GetParameterRequest \<lparr>GetParameterInput.Name = ''/app/color'', GetParameterInput.WithDecryption = False\<rparr>,
         DeleteParameterRequest \<lparr>DeleteParameterInput.Name = ''/app/color''\<rparr>])
   \<and> IsNotFound (snd (fst (Delete \<lparr>api = scripted (failing (ParameterNotFound ''ParameterNotFound'')),
                                     isEncrypted = False\<rparr> ''/app/color'' [])))
   \<and> snd (Delete \<lparr>api = scripted (failing (ParameterNotFound ''ParameterNotFound'')),
                   isEncrypted = False\<rparr> ''/app/color'' [])
     = [GetParameterRequest \<lparr>GetParameterInput.Name = ''/app/color'', GetParameterInput.WithDecryption = False\<rparr>]"
  using Delete_returns_old_value [of "''/app/color''"
          "\<lparr>api = scripted (holding ''blue''), isEncrypted = False\<rparr>" "[]"
          "Inr (Some \<lparr>Parameter = Some \<lparr>Parameter.Name = Some ''/app/color'', Parameter.Value = Some ''blue''\<rparr>\<rparr>)"
          "[GetParameterRequest \<lparr>GetParameterInput.Name = ''/app/color'', GetParameterInput.WithDecryption = False\<rparr>]"]
        Delete_returns_old_value [of "''/app/color''"
          "\<lparr>api = scripted (failing (ParameterNotFound ''ParameterNotFound'')), isEncrypted = False\<rparr>" "[]"
          "Inl (ParameterNotFound ''ParameterNotFound'')"
          "[GetParameterRequest \<lparr>GetParameterInput.Name = ''/app/color'', GetParameterInput.WithDecryption = False\<rparr>]"]
  by (simp add: scripted_def holding_def failing_def IsEncrypted_def)


section \<open>Overwriting and creating\<close>

text \<open>
  Claim C7. Let the service accept the write. When the key holds \<open>v1\<close>, the new value
  \<open>v2\<close> differs from it and \<open>overwrite\<close> is true, \<open>Put\<close> returns \<open>v1\<close> with no error
  and leaves the service in the state reached by the accepted \<^verbatim>\<open>PutParameter\<close>
  request, which carries the key, \<open>v2\<close> and the overwrite flag. When the service
  reports the key as not found, \<open>Put\<close> issues the write as well and returns the empty
  string with no error.
\<close>

theorem Put_overwrite_or_create:
  assumes "key \<noteq> ''''"
    and "GetParameter (api c) \<lparr>GetParameterInput.Name = key, GetParameterInput.WithDecryption = IsEncrypted c\<rparr> s
           = (r, s1)"
    and "PutParameter (api c)
           \<lparr>PutParameterInput.Name = key, Type = ParameterTypeString, PutParameterInput.Value = v2,
            Overwrite = (length overwrite > 0 \<and> overwrite ! 0 = True), Tier = ParameterTierStandard\<rparr> s1
           = (Inr (), s2)"
  shows "(\<forall>p v1. r = Inr (Some \<lparr>Parameter = Some p\<rparr>) \<and> Parameter.Value p = Some v1 \<and> v1 \<noteq> v2
             \<and> length overwrite > 0 \<and> overwrite ! 0 = True
           \<longrightarrow> Put c key v2 overwrite s = ((v1, None), s2))
       \<and> (\<forall>e. r = Inl e \<and> errors_As_ParameterNotFound e
           \<longrightarrow> Put c key v2 overwrite s = (('''', None), s2))"
proof (intro conjI allI impI)
  fix p v1
  assume h: "r = Inr (Some \<lparr>Parameter = Some p\<rparr>) \<and> Parameter.Value p = Some v1 \<and> v1 \<noteq> v2
             \<and> length overwrite > 0 \<and> overwrite ! 0 = True"
  have "Param c key s = ((v1, None), s1)"
    using assms(1,2) h by (simp add: Param_read_value)
  then show "Put c key v2 overwrite s = ((v1, None), s2)"
    using h assms(3) by (simp add: Put_found)
next
  fix e
  assume h: "r = Inl e \<and> errors_As_ParameterNotFound e"
  have "Param c key s = (('''', handleAPIError (Some e) (''c.api.GetParameter failed ('' @ key @ '')'')), s1)"
    using assms(1,2) h by (simp add: Param_read_failed)
  moreover have "IsNotFound (handleAPIError (Some e) (''c.api.GetParameter failed ('' @ key @ '')''))"
    using h by (simp add: IsNotFound_handleAPIError)
  ultimately show "Put c key v2 overwrite s = (('''', None), s2)"
    using assms(3) by (simp add: Put_not_found)
qed

text \<open>
  Claim C7 at a key holding \<open>blue\<close> put to \<open>green\<close> with \<open>overwrite\<close> true, and at a
  key the service reports as not found.
\<close>

theorem Put_overwrite_or_create_witness:
  "Put \<lparr>api = scripted (holding ''blue''), isEncrypted = False\<rparr> ''/app/color'' ''green'' [True] []
     = ((''blue'', None),
        [GetParameterRequest \<lparr>GetParameterInput.Name = ''/app/color'', GetParameterInput.WithDecryption = False\<rparr>,
         PutParameterRequest \<lparr>PutParameterInput.Name = ''/app/color'', Type = ParameterTypeString,
            PutParameterInput.Value = ''green'', Overwrite = True, Tier = ParameterTierStandard\<rparr>])
   \<and> Put \<lparr>api = scripted ((failing (ParameterNotFound ''ParameterNotFound''))\<lparr>onPutParameter := (\<lambda>i. Inr ())\<rparr>),
           isEncrypted = False\<rparr> ''/app/color'' ''green'' [] []
     = (('''', None),
        [GetParameterRequest \<lparr>GetParameterInput.Name = ''/app/color'', GetParameterInput.WithDecryption = False\<rparr>,
         PutParameterRequest \<lparr>PutParameterInput.Name = ''/app/color'', Type = ParameterTypeString,
            PutParameterInput.Value = ''green'', Overwrite = False, Tier = ParameterTierStandard\<rparr>])"
  using Put_overwrite_or_create [of "''/app/color''"
          "\<lparr>api = scripted (holding ''blue''), isEncrypted = False\<rparr>" "[]"
          "Inr (Some \<lparr>Parameter = Some \<lparr>Parameter.Name = Some ''/app/color'', Parameter.Value = Some ''blue''\<rparr>\<rparr>)"
          "[GetParameterRequest \<lparr>GetParameterInput.Name = ''/app/color'', GetParameterInput.WithDecryption = False\<rparr>]"
          "''green''" "[True]"
          "[GetParameterRequest \<lparr>GetParameterInput.Name = ''/app/color'', GetParameterInput.WithDecryption = False\<rparr>,
            PutParameterRequest \<lparr>PutParameterInput.Name = ''/app/color'', Type = ParameterTypeString,
              PutParameterInput.Value = ''green'', Overwrite = True, Tier = ParameterTierStandard\<rparr>]"]
        Put_overwrite_or_create [of "''/app/color''"
          "\<lparr>api = scripted ((failing (ParameterNotFound ''ParameterNotFound''))\<lparr>onPutParameter := (\<lambda>i. Inr ())\<rparr>),
            isEncrypted = False\<rparr>" "[]"
          "Inl (ParameterNotFound ''ParameterNotFound'')"
          "[GetParameterRequest \<lparr>GetParameterInput.Name = ''/app/color'', GetParameterInput.WithDecryption = False\<rparr>]"
          "''green''" "[]"
          "[GetParameterRequest \<lparr>GetParameterInput.Name = ''/app/color'', GetParameterInput.WithDecryption = False\<rparr>,
            PutParameterRequest \<lparr>PutParameterInput.Name = ''/app/color'', Type = ParameterTypeString,
              PutParameterInput.Value = ''green'', Overwrite = False, Tier = ParameterTierStandard\<rparr>]"]
  by (simp add: scripted_def holding_def failing_def IsEncrypted_def)

text \<open>
  Claim C10 as it is written fails. On the key-value store, a key that exists with
  the empty string and is put to \<open>green\<close> with \<open>overwrite\<close> false passes the guard
  of \<open>Put\<close>, but the write it issues carries the overwrite flag unset and the store
  refuses it: \<open>Put\<close> fails with a System error and the store is left as it was.
\<close>

theorem Put_empty_value_refused_counterexample:
  "Put \<lparr>api = key_value_store, isEncrypted = False\<rparr> ''/app/color'' ''green'' [False]
       [(''/app/color'', '''')]
     = (('''', Some (To systemErr (OtherError ''ParameterAlreadyExists'')
                      ''c.api.PutParameterWithContext failed (/app/color)'')),
        [(''/app/color'', '''')])
   \<and> IsSystem (snd (fst (Put \<lparr>api = key_value_store, isEncrypted = False\<rparr> ''/app/color'' ''green'' [False]
       [(''/app/color'', '''')])))"
  by (simp add: Put_def Param_def key_value_store_def IsEncrypted_def IsNotFound_def IsSystem_def
        is_category_def ToSystem_def)

text \<open>
  Claim C10, as amended. When the key exists and holds the empty string, the new value
  is not empty and \<open>overwrite\<close> is false or omitted, the guard of \<open>Put\<close> does not
  refuse: \<open>Put\<close> issues the \<^verbatim>\<open>PutParameter\<close> request with the overwrite flag unset
  and its outcome is the answer of the service to that request. When the service
  accepts, \<open>Put\<close> returns the empty string with no error, in the state the write
  produced; when the service refuses, \<open>Put\<close> fails with a System error made from the
  error of the service. In neither case is the error a Conflict error. The guard tells
  an existing key from a missing one by the value read back being empty or not.
\<close>

theorem Put_empty_value_passes_guard:
  assumes "key \<noteq> ''''"
    and "GetParameter (api c) \<lparr>GetParameterInput.Name = key, GetParameterInput.WithDecryption = IsEncrypted c\<rparr> s
           = (Inr (Some \<lparr>Parameter = Some p\<rparr>), s1)"
    and "Parameter.Value p = Some ''''"
    and "v \<noteq> ''''"
    and "overwrite = [] \<or> overwrite ! 0 = False"
  shows "Put c key v overwrite s =
           (case PutParameter (api c)
                   \<lparr>PutParameterInput.Name = key, Type = ParameterTypeString, PutParameterInput.Value = v,
                    Overwrite = False, Tier = ParameterTierStandard\<rparr> s1 of
              (Inl e, s2) \<Rightarrow>
                (('''', Some (ToSystem e (''c.api.PutParameterWithContext failed ('' @ key @ '')''))), s2)
            | (Inr u, s2) \<Rightarrow> (('''', None), s2))
       \<and> \<not> IsConflict (snd (fst (Put c key v overwrite s)))"
proof -
  let ?w = "PutParameter (api c)
              \<lparr>PutParameterInput.Name = key, Type = ParameterTypeString, PutParameterInput.Value = v,
               Overwrite = False, Tier = ParameterTierStandard\<rparr> s1"
  have "Param c key s = (('''', None), s1)"
    using assms(1,2,3) by (rule Param_read_value)
  then have eq: "Put c key v overwrite s =
           (case ?w of
              (Inl e, s2) \<Rightarrow>
                (('''', Some (ToSystem e (''c.api.PutParameterWithContext failed ('' @ key @ '')''))), s2)
            | (Inr u, s2) \<Rightarrow> (('''', None), s2))"
    using assms(4,5) by (auto simp add: Put_found)
  have "\<not> IsConflict (snd (fst (Put c key v overwrite s)))"
    unfolding eq
    by (cases ?w) (simp add: IsConflict_def is_category_def ToSystem_def split: sum.splits)
  with eq show ?thesis by simp
qed

text \<open>
  Claim C10, as amended, at a key holding the empty string: on the scripted service,
  which accepts every write, the read is followed by the write and \<open>Put\<close> succeeds; on
  the key-value store the write is refused and \<open>Put\<close> fails with a System error.
\<close>

theorem Put_empty_value_passes_guard_witness:
  "Put \<lparr>api = scripted (holding ''''), isEncrypted = False\<rparr> ''/app/color'' ''green'' [] []
     = (('''', None),
        [GetParameterRequest \<lparr>GetParameterInput.Name = ''/app/color'', GetParameterInput.WithDecryption = False\<rparr>,
         PutParameterRequest \<lparr>PutParameterInput.Name = ''/app/color'', Type = ParameterTypeString,
            PutParameterInput.Value = ''green'', Overwrite = False, Tier = ParameterTierStandard\<rparr>])
   \<and> Put \<lparr>api = key_value_store, isEncrypted = False\<rparr> ''/app/color'' ''green'' [] [(''/app/color'', '''')]
     = (('''', Some (ToSystem (OtherError ''ParameterAlreadyExists'')
                      ''c.api.PutParameterWithContext failed (/app/color)'')),
        [(''/app/color'', '''')])"
  using Put_empty_value_passes_guard [of "''/app/color''"
          "\<lparr>api = scripted (holding ''''), isEncrypted = False\<rparr>" "[]"
          "\<lparr>Parameter.Name = Some ''/app/color'', Parameter.Value = Some ''''\<rparr>"
          "[GetParameterRequest \<lparr>GetParameterInput.Name = ''/app/color'', GetParameterInput.WithDecryption = False\<rparr>]"
          "''green''" "[]"]
        Put_empty_value_passes_guard [of "''/app/color''"
          "\<lparr>api = key_value_store, isEncrypted = False\<rparr>" "[(''/app/color'', '''')]"
          "\<lparr>Parameter.Name = Some ''/app/color'', Parameter.Value = Some ''''\<rparr>"
          "[(''/app/color'', '''')]"
          "''green''" "[]"]
  by (simp add: scripted_def holding_def key_value_store_def IsEncrypted_def)


section \<open>Empty arguments\<close>

text \<open>
  Claim C3 as it is written fails: the error returned for an empty key, for an empty
  path and for no keys is a System error in each case, not an InvalidInput error.
\<close>

theorem empty_argument_not_InvalidInput_counterexample:
  "\<not> IsInvalidInput (snd (fst (Param \<lparr>api = scripted (holding ''blue''), isEncrypted = False\<rparr> '''' [])))
   \<and> Path \<lparr>api = scripted (holding ''blue''), isEncrypted = False\<rparr> '''' [] []
       = Some (Return (Map.empty, Some (Fail systemErr ''path is empty'')), [])
   \<and> Collect_keys \<lparr>api = scripted (holding ''blue''), isEncrypted = False\<rparr> [] []
       = (Return (None, [], Some (Fail systemErr ''keys must have at least one key'')), [])
   \<and> \<not> IsInvalidInput (Some (Fail systemErr ''path is empty''))
   \<and> \<not> IsInvalidInput (Some (Fail systemErr ''keys must have at least one key''))"
  by (simp add: Param_def Path_def Collect_keys_def IsInvalidInput_def is_category_def System_def)

text \<open>
  Claim C3, as amended. \<open>Param\<close> with an empty key, \<open>Path\<close> with an empty path and
  \<open>Collect_keys\<close> with no keys each fail with a System error and leave the state of the
  service as it was: the service is not contacted.
\<close>

theorem empty_argument_System:
  "Param c '''' s = (('''', Some (System ''key is empty, a non empty key is required'')), s)
   \<and> Path c '''' recursive s = Some (Return (Map.empty, Some (System ''path is empty'')), s)
   \<and> Collect_keys c [] s = (Return (None, [], Some (System ''keys must have at least one key'')), s)
   \<and> IsSystem (Some (System ''key is empty, a non empty key is required''))
   \<and> IsSystem (Some (System ''path is empty''))
   \<and> IsSystem (Some (System ''keys must have at least one key''))"
  by (simp add: Param_def Path_def Collect_keys_def IsSystem_System)

text \<open>
  Claim C3, as amended, at a scripted service: its list of received requests stays empty.
\<close>

theorem empty_argument_System_witness:
  "Param \<lparr>api = scripted (holding ''blue''), isEncrypted = False\<rparr> '''' []
     = (('''', Some (System ''key is empty, a non empty key is required'')), [])
   \<and> Path \<lparr>api = scripted (holding ''blue''), isEncrypted = False\<rparr> '''' [False] []
     = Some (Return (Map.empty, Some (System ''path is empty'')), [])
   \<and> Collect_keys \<lparr>api = scripted (holding ''blue''), isEncrypted = False\<rparr> [] []
     = (Return (None, [], Some (System ''keys must have at least one key'')), [])"
  using empty_argument_System [of "\<lparr>api = scripted (holding ''blue''), isEncrypted = False\<rparr>" "[]" "[False]"]
  by simp

section \<open>Fetching a path\<close>

lemma EnsurePathPrefix_relative:
  "\<not> strings_HasPrefix p ''/'' \<Longrightarrow> EnsurePathPrefix p = ''/'' @ p"
  by (simp add: EnsurePathPrefix_def)

lemma EnsurePathPrefix_absolute: "EnsurePathPrefix (CHR ''/'' # p) = CHR ''/'' # p"
  by (simp add: EnsurePathPrefix_def strings_HasPrefix_def)

lemma Path_pages_done:
  "\<not> HasMorePages pager \<Longrightarrow> Path_pages a pager result errs s = Some (Return (result, errs), s)"
  by (subst Path_pages.simps) simp

lemma Path_pages_step:
  assumes "HasMorePages pager"
    and "GetParametersByPath a ((params pager)\<lparr>GetParametersByPathInput.NextToken := nextToken pager\<rparr>) s
           = (Inr (Some out), s')"
  shows "Path_pages a pager result errs s
           = Path_pages a (pager\<lparr>firstPage := False, nextToken := GetParametersByPathOutput.NextToken out\<rparr>)
               (foldl store_parameter result (GetParametersByPathOutput.Parameters out)) errs s'"
  by (subst Path_pages.simps) (simp add: assms NextPage_def)

lemma Path_pages_last:
  assumes "HasMorePages pager"
    and "GetParametersByPath a ((params pager)\<lparr>GetParametersByPathInput.NextToken := nextToken pager\<rparr>) s
           = (Inr (Some out), s')"
    and "GetParametersByPathOutput.NextToken out = None"
  shows "Path_pages a pager result errs s
           = Some (Return (foldl store_parameter result (GetParametersByPathOutput.Parameters out), errs), s')"
  by (simp add: Path_pages_step [OF assms(1,2)] assms(3) Path_pages_done HasMorePages_def)

text \<open>
  Claim C8. For a non-empty path \<open>p\<close> that does not begin with \<open>/\<close>, \<open>Path\<close> on
  \<open>p\<close> and \<open>Path\<close> on \<open>/p\<close> are the same computation, with the same result and the
  same requests: both paths are normalised to \<open>/p\<close> before the first request.
\<close>

theorem Path_leading_slash:
  assumes "p \<noteq> ''''" and "\<not> strings_HasPrefix p ''/''"
  shows "Path c p recursive s = Path c (''/'' @ p) recursive s
       \<and> EnsurePathPrefix p = ''/'' @ p \<and> EnsurePathPrefix (''/'' @ p) = ''/'' @ p"
  using assms
  by (simp add: Path_def EnsurePathPrefix_relative EnsurePathPrefix_absolute)

text \<open>
  Claim C8 at the paths \<open>cfg\<close> and \<open>/cfg\<close>: both return the one parameter of the page,
  after one request for \<open>/cfg\<close>.
\<close>

theorem Path_leading_slash_witness:
  "Path \<lparr>api = scripted (holding ''blue''), isEncrypted = False\<rparr> ''cfg'' [] []
     = Path \<lparr>api = scripted (holding ''blue''), isEncrypted = False\<rparr> ''/cfg'' [] []
   \<and> Path \<lparr>api = scripted (holding ''blue''), isEncrypted = False\<rparr> ''/cfg'' [] []
     = Some (Return ([''/cfg/a'' \<mapsto> ''blue''], None),
         [GetParametersByPathRequest \<lparr>GetParametersByPathInput.Path = ''/cfg'', GetParametersByPathInput.WithDecryption = False,
            Recursive = True, GetParametersByPathInput.NextToken = None\<rparr>])"
proof -
  have "Path_pages (scripted (holding ''blue''))
          (NewGetParametersByPathPaginator \<lparr>GetParametersByPathInput.Path = ''/cfg'', GetParametersByPathInput.WithDecryption = False,
              Recursive = True, GetParametersByPathInput.NextToken = None\<rparr>) Map.empty [] []
        = Some (Return ([''/cfg/a'' \<mapsto> ''blue''], []),
            [GetParametersByPathRequest \<lparr>GetParametersByPathInput.Path = ''/cfg'', GetParametersByPathInput.WithDecryption = False,
               Recursive = True, GetParametersByPathInput.NextToken = None\<rparr>])"
    by (subst Path_pages_last [where out = "\<lparr>GetParametersByPathOutput.Parameters =
              [\<lparr>Parameter.Name = Some ''/cfg/a'', Parameter.Value = Some ''blue''\<rparr>],
              GetParametersByPathOutput.NextToken = None\<rparr>"])
       (simp_all add: HasMorePages_def NewGetParametersByPathPaginator_def scripted_def holding_def
          store_parameter_def)
  then have "Path \<lparr>api = scripted (holding ''blue''), isEncrypted = False\<rparr> ''/cfg'' [] []
     = Some (Return ([''/cfg/a'' \<mapsto> ''blue''], None),
         [GetParametersByPathRequest \<lparr>GetParametersByPathInput.Path = ''/cfg'', GetParametersByPathInput.WithDecryption = False,
            Recursive = True, GetParametersByPathInput.NextToken = None\<rparr>])"
    by (simp add: Path_def EnsurePathPrefix_absolute IsEncrypted_def)
  moreover have "''cfg'' \<noteq> ''''" and "\<not> strings_HasPrefix ''cfg'' ''/''"
    by (simp_all add: strings_HasPrefix_def)
  ultimately show ?thesis
    using Path_leading_slash [of "''cfg''" "\<lparr>api = scripted (holding ''blue''), isEncrypted = False\<rparr>" "[]" "[]"]
    by simp
qed

lemma Path_pages_panics_on_error:
  assumes "HasMorePages pager"
    and "GetParametersByPath a ((params pager)\<lparr>GetParametersByPathInput.NextToken := nextToken pager\<rparr>) s
           = (Inl e, s')"
  shows "Path_pages a pager result errs s = Some (Panic, s')"
  using assms by (subst Path_pages.simps) (simp add: NextPage_def)

lemma Path_second_page_error:
  "Path \<lparr>api = scripted (second_page_failing ''blue'' (OtherError ''throttled'')), isEncrypted = False\<rparr>
      ''/cfg'' [] []
     = Some (Panic,
         [GetParametersByPathRequest \<lparr>GetParametersByPathInput.Path = ''/cfg'',
            GetParametersByPathInput.WithDecryption = False,
            Recursive = True, GetParametersByPathInput.NextToken = None\<rparr>,
          GetParametersByPathRequest \<lparr>GetParametersByPathInput.Path = ''/cfg'',
            GetParametersByPathInput.WithDecryption = False,
            Recursive = True, GetParametersByPathInput.NextToken = Some ''page-2''\<rparr>])"
proof -
  let ?a = "scripted (second_page_failing ''blue'' (OtherError ''throttled''))"
  let ?inp = "\<lparr>GetParametersByPathInput.Path = ''/cfg'', GetParametersByPathInput.WithDecryption = False,
            Recursive = True, GetParametersByPathInput.NextToken = None\<rparr>"
  let ?out = "\<lparr>GetParametersByPathOutput.Parameters =
                [\<lparr>Parameter.Name = Some ''/cfg/a'', Parameter.Value = Some ''blue''\<rparr>],
              GetParametersByPathOutput.NextToken = Some ''page-2''\<rparr>"
  let ?p1 = "NewGetParametersByPathPaginator ?inp"
  let ?p2 = "?p1\<lparr>firstPage := False, nextToken := GetParametersByPathOutput.NextToken ?out\<rparr>"
  have 1: "Path_pages ?a ?p1 Map.empty [] []
         = Path_pages ?a ?p2 (foldl store_parameter Map.empty (GetParametersByPathOutput.Parameters ?out)) []
             [GetParametersByPathRequest ?inp]"
    by (rule Path_pages_step)
       (simp_all add: HasMorePages_def NewGetParametersByPathPaginator_def scripted_def
          second_page_failing_def holding_def)
  have 2: "Path_pages ?a ?p2 (foldl store_parameter Map.empty (GetParametersByPathOutput.Parameters ?out)) []
             [GetParametersByPathRequest ?inp]
         = Some (Panic, [GetParametersByPathRequest ?inp,
              GetParametersByPathRequest (?inp\<lparr>GetParametersByPathInput.NextToken := Some ''page-2''\<rparr>)])"
    by (rule Path_pages_panics_on_error [where e = "OtherError ''throttled''"])
       (simp_all add: HasMorePages_def NewGetParametersByPathPaginator_def scripted_def
          second_page_failing_def holding_def)
  show ?thesis
    using 1 2 by (simp add: Path_def EnsurePathPrefix_absolute IsEncrypted_def)
qed

text \<open>
  Claim C2 does not hold of the code. When the request for the first page is answered
  with an error, the paginator hands \<open>Path\<close> a nil output with the error; \<open>Path\<close>
  appends the error and then reads the parameters through the nil output, which
  panics. No mapping and no nil error are returned. By \<open>Path_pages_panics_on_error\<close> the
  same happens at whichever page the error occurs, whatever was accumulated before.
\<close>

theorem Path_page_error_panics:
  assumes "path \<noteq> ''''"
    and "GetParametersByPath (api c)
           \<lparr>GetParametersByPathInput.Path = EnsurePathPrefix path, GetParametersByPathInput.WithDecryption = IsEncrypted c,
            Recursive = (\<not> (length recursive > 0 \<and> recursive ! 0 = False)),
            GetParametersByPathInput.NextToken = None\<rparr> s
           = (Inl e, s')"
  shows "Path c path recursive s = Some (Panic, s')"
proof -
  let ?inp = "\<lparr>GetParametersByPathInput.Path = EnsurePathPrefix path, GetParametersByPathInput.WithDecryption = IsEncrypted c,
            Recursive = (\<not> (length recursive > 0 \<and> recursive ! 0 = False)),
            GetParametersByPathInput.NextToken = None\<rparr>"
  have "Path_pages (api c) (NewGetParametersByPathPaginator ?inp) Map.empty [] s = Some (Panic, s')"
    using assms(2)
    by (intro Path_pages_panics_on_error) (simp_all add: NewGetParametersByPathPaginator_def HasMorePages_def)
  then show ?thesis
    using assms(1) by (auto simp add: Path_def)
qed

text \<open>
  Claim C2 at a service whose connection breaks on the first page, and at one that
  answers the first page and fails on the second: the parameter of the first page is
  lost with the panic.
\<close>

theorem Path_page_error_panics_witness:
  "Path \<lparr>api = scripted (failing (OtherError ''connection reset'')), isEncrypted = False\<rparr> ''/cfg'' [] []
     = Some (Panic,
         [GetParametersByPathRequest \<lparr>GetParametersByPathInput.Path = ''/cfg'',
            GetParametersByPathInput.WithDecryption = False,
            Recursive = True, GetParametersByPathInput.NextToken = None\<rparr>])
   \<and> Path \<lparr>api = scripted (second_page_failing ''blue'' (OtherError ''throttled'')), isEncrypted = False\<rparr>
      ''/cfg'' [] []
     = Some (Panic,
         [GetParametersByPathRequest \<lparr>GetParametersByPathInput.Path = ''/cfg'',
            GetParametersByPathInput.WithDecryption = False,
            Recursive = True, GetParametersByPathInput.NextToken = None\<rparr>,
          GetParametersByPathRequest \<lparr>GetParametersByPathInput.Path = ''/cfg'',
            GetParametersByPathInput.WithDecryption = False,
            Recursive = True, GetParametersByPathInput.NextToken = Some ''page-2''\<rparr>])"
  using Path_page_error_panics [of "''/cfg''"
          "\<lparr>api = scripted (failing (OtherError ''connection reset'')), isEncrypted = False\<rparr>" "[]" "[]"
          "OtherError ''connection reset''"
          "[GetParametersByPathRequest \<lparr>GetParametersByPathInput.Path = ''/cfg'',
            GetParametersByPathInput.WithDecryption = False,
            Recursive = True, GetParametersByPathInput.NextToken = None\<rparr>]"]
        Path_second_page_error
  by (simp add: scripted_def failing_def IsEncrypted_def EnsurePathPrefix_absolute)

section \<open>Trigger names\<close>

lemma ToLambdaTrigger_registered:
  "strings_ToLower u s \<in> set registered \<Longrightarrow>
     ToLambdaTrigger u s = (LambdaTrigger (strings_ToLower u s), None)"
  by (auto simp add: ToLambdaTrigger_def registered_def APIGWTrigger_def DDBTrigger_def DirectTrigger_def
        CognitoTrigger_def S3Trigger_def SNSTrigger_def SQSTrigger_def)

lemma ToLambdaTrigger_unregistered:
  "strings_ToLower u s \<notin> set registered \<Longrightarrow>
     ToLambdaTrigger u s = (LambdaTrigger '''', Some ''event trigger () is not registered'')"
  by (simp add: ToLambdaTrigger_def registered_def APIGWTrigger_def DDBTrigger_def DirectTrigger_def
        CognitoTrigger_def S3Trigger_def SNSTrigger_def SQSTrigger_def)

lemma ToLambdaTrigger_lower_only:
  "strings_ToLower u s' = strings_ToLower u s \<Longrightarrow> ToLambdaTrigger u s' = ToLambdaTrigger u s"
  by (simp add: ToLambdaTrigger_def)

lemma ascii_lower_idem: "ascii_lower (ascii_lower c) = ascii_lower c"
  by (simp add: ascii_lower_def)

lemma is_ascii_lower: "is_ascii c \<Longrightarrow> is_ascii (ascii_lower c)"
  by (simp add: ascii_lower_def is_ascii_def)

lemma strings_ToLower_ascii_idem:
  "list_all is_ascii s \<Longrightarrow> strings_ToLower u (map ascii_lower s) = strings_ToLower u s"
  by (simp add: strings_ToLower_def list_all_iff is_ascii_lower ascii_lower_idem)

lemma registered_names:
  "registered = [''apigw'', ''ddb'', ''direct'', ''cognito'', ''s3'', ''sns'', ''sqs'']"
  by (simp add: registered_def APIGWTrigger_def DDBTrigger_def DirectTrigger_def
        CognitoTrigger_def S3Trigger_def SNSTrigger_def SQSTrigger_def)

lemma strings_ToLower_examples:
  "strings_ToLower (\<lambda>x. x) ''SqS'' = ''sqs''"
  "strings_ToLower (\<lambda>x. x) ''sqs'' = ''sqs''"
  "strings_ToLower (\<lambda>x. x) ''Kafka'' = ''kafka''"
  by (simp_all add: strings_ToLower_def is_ascii_def ascii_lower_def char_of_eq_iff)

text \<open>
  Claim C9. \<open>ToLambdaTrigger\<close> returns no error exactly when the lower-case form of
  its argument is one of the seven registered names, and then returns the trigger of
  that name. Its result depends on the lower-case form only, so two spellings of one
  name give the same result, and among ASCII strings a string and its lower-case form
  do. For every other string it returns an error with the empty trigger.
\<close>

theorem ToLambdaTrigger_closed_enumeration:
  "(snd (ToLambdaTrigger u s) = None \<longleftrightarrow> strings_ToLower u s \<in> set registered)
   \<and> (strings_ToLower u s \<in> set registered \<longrightarrow>
        fst (ToLambdaTrigger u s) = LambdaTrigger (strings_ToLower u s))
   \<and> (strings_ToLower u s' = strings_ToLower u s \<longrightarrow> ToLambdaTrigger u s' = ToLambdaTrigger u s)
   \<and> (list_all is_ascii s \<longrightarrow> ToLambdaTrigger u (map ascii_lower s) = ToLambdaTrigger u s)
   \<and> (strings_ToLower u s \<notin> set registered \<longrightarrow>
        snd (ToLambdaTrigger u s) \<noteq> None \<and> fst (ToLambdaTrigger u s) = LambdaTrigger '''')"
proof (cases "strings_ToLower u s \<in> set registered")
  case True
  then show ?thesis
    by (simp add: ToLambdaTrigger_registered ToLambdaTrigger_lower_only strings_ToLower_ascii_idem)
next
  case False
  then show ?thesis
    by (simp add: ToLambdaTrigger_unregistered ToLambdaTrigger_lower_only strings_ToLower_ascii_idem)
qed

text \<open>
  Claim C9 at \<open>SqS\<close> and \<open>sqs\<close>, which give the same registered trigger, and at
  \<open>Kafka\<close>, which is not registered.
\<close>

theorem ToLambdaTrigger_closed_enumeration_witness:
  "ToLambdaTrigger (\<lambda>x. x) ''SqS'' = (SQSTrigger, None)
   \<and> ToLambdaTrigger (\<lambda>x. x) ''sqs'' = ToLambdaTrigger (\<lambda>x. x) ''SqS''
   \<and> snd (ToLambdaTrigger (\<lambda>x. x) ''Kafka'') \<noteq> None"
  using ToLambdaTrigger_closed_enumeration [of "\<lambda>x. x" "''SqS''" "''sqs''"]
        ToLambdaTrigger_closed_enumeration [of "\<lambda>x. x" "''Kafka''" "''Kafka''"]
  by (simp add: strings_ToLower_examples registered_names SQSTrigger_def prod_eq_iff)

end
